theory Spec2Isabelle
  imports Main
begin

section \<open>Data model of \<open>main.go\<close>\<close>

text \<open>
  A Go \<open>string\<close> is a sequence of bytes; it is modelled as \<open>string\<close> (a list of
  \<open>char\<close>, each one byte). The empty Go string \<open>""\<close> is \<open>[]\<close>.

  The three structs share field names (\<open>Text\<close>, \<open>Color\<close>, \<open>Channel\<close>, \<open>IconURL\<close>).
  \<open>ConfigsModel\<close> is declared last, so an unqualified field name is a field of the
  configuration; the fields of the two payload structs are always written qualified.
\<close>

record AttachmentItemModel =
  Fallback :: string
  Text :: string
  Color :: string

text \<open>
  The four optional fields are \<open>*string\<close> in the source: \<open>None\<close> is the nil pointer.
  The pointers are only ever set to the address of a local copy that is not written
  afterwards, so the pointee is the value itself.
\<close>

record RequestParams =
  Text :: string
  Attachments :: "AttachmentItemModel list"
  Channel :: "string option"
  Username :: "string option"
  EmojiIcon :: "string option"
  IconURL :: "string option"

record ConfigsModel =
  WebhookURL :: string
  Channel :: string
  FromUsername :: string
  FromUsernameOnError :: string
  Message :: string
  MessageOnError :: string
  FormattingMode :: string
  Color :: string
  ColorOnError :: string
  Emoji :: string
  EmojiOnError :: string
  IconURL :: string
  IconURLOnError :: string
  IsDebugMode :: bool
  IsBuildFailed :: bool

definition formattingModeAttachment :: string where
  "formattingModeAttachment = ''attachment''"

definition formattingModeText :: string where
  "formattingModeText = ''text''"

text \<open>A Go \<open>error\<close> value, identified by its message; \<open>nil\<close> is \<open>None\<close>.\<close>

datatype error = Error string

text \<open>
  What the functions write to standard output, one entry per call of \<open>fmt.Println\<close> or
  \<open>fmt.Printf\<close>, in order. The colour wrappers of the \<open>colorstring\<close> package are kept
  as constructors.
\<close>

datatype console =
    PrintlnYellow string
  | PrintlnRed string string
  | PrintfParameters RequestParams

text \<open>A function either returns or ends the process with \<open>os.Exit\<close>.\<close>

datatype 'a outcome = Exit int | Return 'a


section \<open>Reading the configuration from the environment\<close>

type_synonym env = "string \<rightharpoonup> string"

text \<open>\<open>os.Getenv\<close>: the value of the variable, or the empty string when it is not set.\<close>

definition Getenv :: "env \<Rightarrow> string \<Rightarrow> string" where
  "Getenv e key = (case e key of None \<Rightarrow> [] | Some v \<Rightarrow> v)"

definition createConfigsModelFromEnvs :: "env \<Rightarrow> ConfigsModel" where
  "createConfigsModelFromEnvs e =
     \<lparr> WebhookURL = Getenv e ''webhook_url'',
       Channel = Getenv e ''channel'',
       FromUsername = Getenv e ''from_username'',
       FromUsernameOnError = Getenv e ''from_username_on_error'',
       Message = Getenv e ''message'',
       MessageOnError = Getenv e ''message_on_error'',
       FormattingMode = Getenv e ''formatting_mode'',
       Color = Getenv e ''color'',
       ColorOnError = Getenv e ''color_on_error'',
       Emoji = Getenv e ''emoji'',
       EmojiOnError = Getenv e ''emoji_on_error'',
       IconURL = Getenv e ''icon_url'',
       IconURLOnError = Getenv e ''icon_url_on_error'',
       IsDebugMode = (Getenv e ''is_debug_mode'' = ''yes''),
       IsBuildFailed = (Getenv e ''STEPLIB_BUILD_STATUS'' \<noteq> ''0'') \<rparr>"


section \<open>Validation\<close>

text \<open>
  The three required checks, then the \<open>switch\<close> on the formatting mode with its cases in
  the order of the source: the two accepted modes, the empty string, \<open>default\<close>.
  \<open>fmt.Errorf\<close> with the verb \<open>%s\<close> appends the string to the message.
\<close>

definition validate :: "ConfigsModel \<Rightarrow> error option" where
  "validate configs =
     (if WebhookURL configs = [] then Some (Error ''No Webhook URL parameter specified!'')
      else if Message configs = [] then Some (Error ''No Message parameter specified!'')
      else if Color configs = [] then Some (Error ''No Color parameter specified!'')
      else if FormattingMode configs = formattingModeText
             \<or> FormattingMode configs = formattingModeAttachment then None
      else if FormattingMode configs = [] then
        Some (Error ''No FormattingMode parameter specified!'')
      else Some (Error (''Invalid FormattingMode: '' @ FormattingMode configs)))"


section \<open>Building the request parameters\<close>

text \<open>
  \<open>CreatePayloadParam\<close>, lines 133 to 205 of \<open>main.go\<close>, block by block. Every block
  returns what it computes together with what it prints.
\<close>

text \<open>Lines 133 to 140: the colour of the message.\<close>

definition select_msgColor :: "ConfigsModel \<Rightarrow> string \<times> console list" where
  "select_msgColor configs =
     (if IsBuildFailed configs then
        (if ColorOnError configs = [] then
           (Color configs,
            [PrintlnYellow '' (i) Build failed but no color_on_error defined, using default.''])
         else (ColorOnError configs, []))
      else (Color configs, []))"

text \<open>Lines 141 to 148: the text of the message.\<close>

definition select_msgText :: "ConfigsModel \<Rightarrow> string \<times> console list" where
  "select_msgText configs =
     (if IsBuildFailed configs then
        (if MessageOnError configs = [] then
           (Message configs,
            [PrintlnYellow '' (i) Build failed but no message_on_error defined, using default.''])
         else (MessageOnError configs, []))
      else (Message configs, []))"

text \<open>Line 150: the zero value \<open>RequestParams{}\<close>.\<close>

definition RequestParams_zero :: RequestParams where
  "RequestParams_zero =
     \<lparr> RequestParams.Text = [], Attachments = [], RequestParams.Channel = None,
       Username = None, EmojiIcon = None, RequestParams.IconURL = None \<rparr>"

text \<open>
  Lines 151 to 160: the formatting mode. The last branch prints and calls
  \<open>os.Exit(1)\<close>; it is the \<open>Inl\<close> result, carrying what was printed.
\<close>

definition set_formatting ::
  "ConfigsModel \<Rightarrow> string \<Rightarrow> string \<Rightarrow> RequestParams \<Rightarrow> console list + RequestParams" where
  "set_formatting configs msgColor msgText reqParams =
     (if FormattingMode configs = formattingModeAttachment then
        Inr (reqParams\<lparr>Attachments :=
               [\<lparr> Fallback = msgText, AttachmentItemModel.Text = msgText,
                   AttachmentItemModel.Color = msgColor \<rparr>]\<rparr>)
      else if FormattingMode configs = formattingModeText then
        Inr (reqParams\<lparr>RequestParams.Text := msgText\<rparr>)
      else Inl [PrintlnRed ''Invalid formatting mode:'' (FormattingMode configs)])"

text \<open>Lines 163 to 166: the channel.\<close>

definition set_Channel :: "ConfigsModel \<Rightarrow> RequestParams \<Rightarrow> RequestParams" where
  "set_Channel configs reqParams =
     (if Channel configs \<noteq> [] then reqParams\<lparr>RequestParams.Channel := Some (Channel configs)\<rparr>
      else reqParams)"

text \<open>Lines 167 to 177: the user name.\<close>

definition set_Username :: "ConfigsModel \<Rightarrow> RequestParams \<Rightarrow> RequestParams \<times> console list" where
  "set_Username configs reqParams =
     (let reqParams1 =
            (if FromUsername configs \<noteq> [] then reqParams\<lparr>Username := Some (FromUsername configs)\<rparr>
             else reqParams)
      in if IsBuildFailed configs then
           (if FromUsernameOnError configs = [] then
              (reqParams1,
               [PrintlnYellow
                  '' (i) Build failed but no from_username_on_error defined, using default.''])
            else (reqParams1\<lparr>Username := Some (FromUsernameOnError configs)\<rparr>, []))
         else (reqParams1, []))"

text \<open>Lines 179 to 189: the emoji icon.\<close>

definition set_EmojiIcon :: "ConfigsModel \<Rightarrow> RequestParams \<Rightarrow> RequestParams \<times> console list" where
  "set_EmojiIcon configs reqParams =
     (let reqParams1 =
            (if Emoji configs \<noteq> [] then reqParams\<lparr>EmojiIcon := Some (Emoji configs)\<rparr>
             else reqParams)
      in if IsBuildFailed configs then
           (if EmojiOnError configs = [] then
              (reqParams1,
               [PrintlnYellow '' (i) Build failed but no emoji_on_error defined, using default.''])
            else (reqParams1\<lparr>EmojiIcon := Some (EmojiOnError configs)\<rparr>, []))
         else (reqParams1, []))"

text \<open>Lines 191 to 201: the icon URL.\<close>

definition set_IconURL :: "ConfigsModel \<Rightarrow> RequestParams \<Rightarrow> RequestParams \<times> console list" where
  "set_IconURL configs reqParams =
     (let reqParams1 =
            (if IconURL configs \<noteq> [] then
               reqParams\<lparr>RequestParams.IconURL := Some (IconURL configs)\<rparr>
             else reqParams)
      in if IsBuildFailed configs then
           (if IconURLOnError configs = [] then
              (reqParams1,
               [PrintlnYellow
                  '' (i) Build failed but no icon_url_on_error defined, using default.''])
            else (reqParams1\<lparr>RequestParams.IconURL := Some (IconURLOnError configs)\<rparr>, []))
         else (reqParams1, []))"

text \<open>Lines 202 to 205: an icon URL makes the emoji input ignored.\<close>

definition ignore_emoji :: "RequestParams \<Rightarrow> RequestParams" where
  "ignore_emoji reqParams =
     (if RequestParams.IconURL reqParams \<noteq> None then reqParams\<lparr>EmojiIcon := None\<rparr>
      else reqParams)"

text \<open>
  Lines 133 to 205 in sequence: the value of the local variable \<open>reqParams\<close> when line
  206 is reached, with everything printed so far, or the exit of line 159.
\<close>

definition buildRequestParams :: "ConfigsModel \<Rightarrow> console list \<times> RequestParams outcome" where
  "buildRequestParams configs =
     (let (msgColor, out1) = select_msgColor configs;
          (msgText, out2) = select_msgText configs
      in case set_formatting configs msgColor msgText RequestParams_zero of
           Inl out3 \<Rightarrow> (out1 @ out2 @ out3, Exit 1)
         | Inr reqParams0 \<Rightarrow>
             (let reqParams1 = set_Channel configs reqParams0;
                  (reqParams2, out4) = set_Username configs reqParams1;
                  (reqParams3, out5) = set_EmojiIcon configs reqParams2;
                  (reqParams4, out6) = set_IconURL configs reqParams3
              in (out1 @ out2 @ out4 @ out5 @ out6, Return (ignore_emoji reqParams4))))"

text \<open>
  Lines 207 to 218, after the above: the debug print, then \<open>json.Marshal\<close>. When the
  serialisation fails the function returns \<open>"", nil\<close>. \<open>json.Marshal\<close> belongs to the Go
  standard library, so the function is first given with the serialiser as a parameter.
\<close>

definition CreatePayloadParam_with ::
  "(RequestParams \<Rightarrow> error + string) \<Rightarrow> ConfigsModel
     \<Rightarrow> console list \<times> (string \<times> error option) outcome" where
  "CreatePayloadParam_with Marshal configs =
     (case buildRequestParams configs of
        (out, Exit code) \<Rightarrow> (out, Exit code)
      | (out, Return reqParams) \<Rightarrow>
          (out @ (if IsDebugMode configs then [PrintfParameters reqParams] else []),
           (case Marshal reqParams of
              Inl err \<Rightarrow> Return ([], None)
            | Inr reqParamsJSONBytes \<Rightarrow> Return (reqParamsJSONBytes, None))))"


section \<open>Serialisation with \<open>encoding/json\<close>\<close>

text \<open>
  \<open>json.Marshal\<close> is the Go standard library's. What it writes for a value of type
  \<open>RequestParams\<close> is fixed by the struct tags of lines 111 to 128: the fields in the
  order of declaration, each under the name of its tag; a field tagged \<open>omitempty\<close> is
  left out when it is the empty string or a slice of length zero; a nil pointer is
  written as \<open>null\<close>. The encoder works in two stages here: the JSON value, then its text.
\<close>

datatype json = JNull | JString string | JArray "json list" | JObject "(string \<times> json) list"

definition marshal_AttachmentItemModel :: "AttachmentItemModel \<Rightarrow> json" where
  "marshal_AttachmentItemModel a =
     JObject ([(''fallback'', JString (Fallback a)),
               (''text'', JString (AttachmentItemModel.Text a))]
              @ (if AttachmentItemModel.Color a = [] then []
                 else [(''color'', JString (AttachmentItemModel.Color a))]))"

definition marshal_ptr :: "string option \<Rightarrow> json" where
  "marshal_ptr p = (case p of None \<Rightarrow> JNull | Some v \<Rightarrow> JString v)"

definition RequestParams_fields :: "RequestParams \<Rightarrow> (string \<times> json) list" where
  "RequestParams_fields r =
     [(''text'', JString (RequestParams.Text r))]
     @ (if Attachments r = [] then []
        else [(''attachments'', JArray (map marshal_AttachmentItemModel (Attachments r)))])
     @ [(''channel'', marshal_ptr (RequestParams.Channel r)),
        (''username'', marshal_ptr (Username r)),
        (''icon_emoji'', marshal_ptr (EmojiIcon r)),
        (''icon_url'', marshal_ptr (RequestParams.IconURL r))]"

definition marshal_RequestParams :: "RequestParams \<Rightarrow> json" where
  "marshal_RequestParams r = JObject (RequestParams_fields r)"

subsection \<open>The text of a JSON string\<close>

text \<open>
  The encoder's string writer, with HTML escaping on as \<open>json.Marshal\<close> has it. A byte
  below \<open>0x80\<close> is copied when it is printable and none of \<open>"\<close>, \<open>\\<close>, \<open><\<close>, \<open>>\<close>,
  \<open>&\<close>; otherwise it is escaped. (The short escapes for backspace and form feed are
  those of Go 1.22 and later; earlier releases write \<open>\u0008\<close> and \<open>\u000c\<close>.)
\<close>

definition htmlSafeSet :: "char \<Rightarrow> bool" where
  "htmlSafeSet b =
     (0x20 \<le> (of_char b :: nat) \<and> (of_char b :: nat) < 0x80
      \<and> b \<noteq> CHR 0x22 \<and> b \<noteq> CHR 0x26 \<and> b \<noteq> CHR 0x3C \<and> b \<noteq> CHR 0x3E \<and> b \<noteq> CHR 0x5C)"

definition hex :: "nat \<Rightarrow> char" where
  "hex n = ''0123456789abcdef'' ! n"

definition escapeByte :: "char \<Rightarrow> string" where
  "escapeByte b =
     (if b = CHR 0x5C \<or> b = CHR 0x22 then [CHR 0x5C, b]
      else if b = CHR 0x08 then [CHR 0x5C, CHR ''b'']
      else if b = CHR 0x0C then [CHR 0x5C, CHR ''f'']
      else if b = CHR 0x0A then [CHR 0x5C, CHR ''n'']
      else if b = CHR 0x0D then [CHR 0x5C, CHR ''r'']
      else if b = CHR 0x09 then [CHR 0x5C, CHR ''t'']
      else CHR 0x5C # ''u00'' @ [hex (of_char b div 16), hex (of_char b mod 16)])"

text \<open>
  From \<open>0x80\<close> on, the writer decodes one UTF-8 sequence (\<open>utf8.DecodeRuneInString\<close>).
  \<open>acceptRange\<close> gives, for a leading byte, the length of its sequence and the bounds of
  the second byte; every later byte lies between \<open>0x80\<close> and \<open>0xBF\<close>. \<open>runeLen\<close> is the
  length of the sequence at the head of the string, \<open>None\<close> when the bytes there are no
  valid sequence.
\<close>

definition acceptRange :: "nat \<Rightarrow> (nat \<times> nat \<times> nat) option" where
  "acceptRange s0 =
     (if 0xC2 \<le> s0 \<and> s0 \<le> 0xDF then Some (2, 0x80, 0xBF)
      else if s0 = 0xE0 then Some (3, 0xA0, 0xBF)
      else if s0 = 0xED then Some (3, 0x80, 0x9F)
      else if 0xE1 \<le> s0 \<and> s0 \<le> 0xEF then Some (3, 0x80, 0xBF)
      else if s0 = 0xF0 then Some (4, 0x90, 0xBF)
      else if 0xF1 \<le> s0 \<and> s0 \<le> 0xF3 then Some (4, 0x80, 0xBF)
      else if s0 = 0xF4 then Some (4, 0x80, 0x8F)
      else None)"

definition continuation :: "char \<Rightarrow> bool" where
  "continuation b = (0x80 \<le> (of_char b :: nat) \<and> (of_char b :: nat) \<le> 0xBF)"

definition runeLen :: "string \<Rightarrow> nat option" where
  "runeLen s =
     (case s of
        [] \<Rightarrow> None
      | s0 # rest \<Rightarrow>
          (case acceptRange (of_char s0) of
             None \<Rightarrow> None
           | Some (sz, lo, hi) \<Rightarrow>
               if length s < sz then None
               else if (of_char (s ! 1) :: nat) < lo \<or> hi < (of_char (s ! 1) :: nat) then None
               else if sz \<le> 2 then Some 2
               else if \<not> continuation (s ! 2) then None
               else if sz \<le> 3 then Some 3
               else if \<not> continuation (s ! 3) then None
               else Some 4))"

text \<open>
  The bytes between the quotes. An invalid byte becomes the six characters \<open>\ufffd\<close>; the line and
  paragraph separators U+2028 and U+2029 are escaped; any other valid sequence is
  copied. After a leading byte \<open>b\<close> with a sequence of \<open>n\<close> bytes, \<open>n - 1\<close> bytes of the
  rest belong to it.
\<close>

fun escapeString :: "string \<Rightarrow> string" where
  "escapeString [] = []"
| "escapeString (b # bs) =
     (if (of_char b :: nat) < 0x80 then
        (if htmlSafeSet b then [b] else escapeByte b) @ escapeString bs
      else
        (case runeLen (b # bs) of
           None \<Rightarrow> (CHR 0x5C # ''ufffd'') @ escapeString bs
         | Some n \<Rightarrow>
             (if take n (b # bs) = [CHR 0xE2, CHR 0x80, CHR 0xA8] then CHR 0x5C # ''u2028''
              else if take n (b # bs) = [CHR 0xE2, CHR 0x80, CHR 0xA9] then CHR 0x5C # ''u2029''
              else take n (b # bs))
             @ escapeString (drop (n - 1) bs)))"

definition appendString :: "string \<Rightarrow> string" where
  "appendString s = CHR 0x22 # escapeString s @ [CHR 0x22]"

subsection \<open>The text of a JSON value\<close>

fun join :: "string \<Rightarrow> string list \<Rightarrow> string" where
  "join sep [] = []"
| "join sep [x] = x"
| "join sep (x # y # ys) = x @ sep @ join sep (y # ys)"

fun encode :: "json \<Rightarrow> string" where
  "encode JNull = ''null''"
| "encode (JString s) = appendString s"
| "encode (JArray vs) = ''['' @ join '','' (map encode vs) @ '']''"
| "encode (JObject kvs) =
     ''{'' @ join '','' (map (\<lambda>(k, v). appendString k @ '':'' @ encode v) kvs) @ ''}''"

text \<open>
  \<open>json.Marshal\<close> on a \<open>RequestParams\<close>: no field has a type the encoder refuses, so the
  error is always nil.
\<close>

definition json_Marshal :: "RequestParams \<Rightarrow> error + string" where
  "json_Marshal r = Inr (encode (marshal_RequestParams r))"

text \<open>\<open>CreatePayloadParam\<close> as it runs, with the library's serialiser.\<close>

definition CreatePayloadParam ::
  "ConfigsModel \<Rightarrow> console list \<times> (string \<times> error option) outcome" where
  "CreatePayloadParam configs = CreatePayloadParam_with json_Marshal configs"


section \<open>The rules of the specification\<close>

text \<open>
  The override rule in the specification's words: use the on-error variant if and only
  if the build failed and that variant is non-empty; otherwise the normal variant.
\<close>

definition override_rule :: "bool \<Rightarrow> string \<Rightarrow> string \<Rightarrow> string" where
  "override_rule failed onError normal = (if failed \<and> onError \<noteq> [] then onError else normal)"

text \<open>
  An optional field in the specification's words: present with its value when that
  value is non-empty, absent otherwise.
\<close>

definition optional :: "string \<Rightarrow> string option" where
  "optional v = (if v = [] then None else Some v)"


section \<open>Example inputs\<close>

text \<open>The first example of the specification: text mode, a successful build.\<close>

definition example_text_ok :: ConfigsModel where
  "example_text_ok =
     \<lparr> WebhookURL = ''https://hooks.slack.com/services/T0/B0/X0'', Channel = [],
       FromUsername = [], FromUsernameOnError = [], Message = ''Build OK'',
       MessageOnError = [], FormattingMode = ''text'', Color = ''good'', ColorOnError = [],
       Emoji = [], EmojiOnError = [], IconURL = [], IconURLOnError = [],
       IsDebugMode = False, IsBuildFailed = False \<rparr>"

text \<open>
  The second example of the specification: attachment mode, a failed build, on-error
  variants for the message and the colour only.
\<close>

definition example_attachment_failed :: ConfigsModel where
  "example_attachment_failed =
     \<lparr> WebhookURL = ''https://hooks.slack.com/services/T0/B0/X0'', Channel = [],
       FromUsername = [], FromUsernameOnError = [], Message = ''Build OK'',
       MessageOnError = ''Build FAILED'', FormattingMode = ''attachment'', Color = ''good'',
       ColorOnError = ''danger'', Emoji = [], EmojiOnError = [], IconURL = [],
       IconURLOnError = [], IsDebugMode = False, IsBuildFailed = True \<rparr>"

text \<open>
  A build with every optional input set, some with an on-error variant and some
  without; the build-failed flag is set by the examples that use it.
\<close>

definition example_all_inputs :: ConfigsModel where
  "example_all_inputs =
     \<lparr> WebhookURL = ''https://hooks.slack.com/services/T0/B0/X0'', Channel = ''#builds'',
       FromUsername = ''ci'', FromUsernameOnError = ''ci-alert'', Message = ''Build OK'',
       MessageOnError = ''Build FAILED'', FormattingMode = ''attachment'', Color = ''good'',
       ColorOnError = [], Emoji = '':tada:'', EmojiOnError = '':boom:'',
       IconURL = ''https://example.com/ok.png'', IconURLOnError = [],
       IsDebugMode = False, IsBuildFailed = False \<rparr>"

text \<open>An environment that sets nothing but the build status.\<close>

definition env_with_status :: "string \<Rightarrow> env" where
  "env_with_status v = [''STEPLIB_BUILD_STATUS'' \<mapsto> v]"

text \<open>A serialiser that always fails.\<close>

definition failing_Marshal :: "RequestParams \<Rightarrow> error + string" where
  "failing_Marshal r = Inl (Error ''json: unsupported value'')"


section \<open>The request parameters in closed form\<close>

lemma fst_select_msgColor:
  "fst (select_msgColor configs) =
     override_rule (IsBuildFailed configs) (ColorOnError configs) (Color configs)"
  by (simp add: select_msgColor_def override_rule_def)

lemma fst_select_msgText:
  "fst (select_msgText configs) =
     override_rule (IsBuildFailed configs) (MessageOnError configs) (Message configs)"
  by (simp add: select_msgText_def override_rule_def)

lemma set_Channel_eq:
  "set_Channel configs r =
     r\<lparr>RequestParams.Channel :=
         (if Channel configs = [] then RequestParams.Channel r else Some (Channel configs))\<rparr>"
  by (simp add: set_Channel_def)

lemma fst_set_Username:
  "fst (set_Username configs r) =
     r\<lparr>Username :=
         (if override_rule (IsBuildFailed configs) (FromUsernameOnError configs) (FromUsername configs) = []
          then Username r
          else Some (override_rule (IsBuildFailed configs) (FromUsernameOnError configs) (FromUsername configs)))\<rparr>"
  by (simp add: set_Username_def override_rule_def)

lemma fst_set_EmojiIcon:
  "fst (set_EmojiIcon configs r) =
     r\<lparr>EmojiIcon :=
         (if override_rule (IsBuildFailed configs) (EmojiOnError configs) (Emoji configs) = []
          then EmojiIcon r
          else Some (override_rule (IsBuildFailed configs) (EmojiOnError configs) (Emoji configs)))\<rparr>"
  by (simp add: set_EmojiIcon_def override_rule_def)

lemma fst_set_IconURL:
  "fst (set_IconURL configs r) =
     r\<lparr>RequestParams.IconURL :=
         (if override_rule (IsBuildFailed configs) (IconURLOnError configs) (IconURL configs) = []
          then RequestParams.IconURL r
          else Some (override_rule (IsBuildFailed configs) (IconURLOnError configs) (IconURL configs)))\<rparr>"
  by (simp add: set_IconURL_def override_rule_def)

lemma snd_buildRequestParams:
  "snd (buildRequestParams configs) =
     (case set_formatting configs (fst (select_msgColor configs)) (fst (select_msgText configs))
             RequestParams_zero of
        Inl out \<Rightarrow> Exit 1
      | Inr r \<Rightarrow>
          Return (ignore_emoji (fst (set_IconURL configs (fst (set_EmojiIcon configs
                    (fst (set_Username configs (set_Channel configs r)))))))))"
  by (simp add: buildRequestParams_def case_prod_beta Let_def split: sum.split)


lemma optional_eq_None: "(optional v = None) = (v = [])"
  by (simp add: optional_def)

lemma formattingModes_distinct: "formattingModeText \<noteq> formattingModeAttachment"
  by (simp add: formattingModeText_def formattingModeAttachment_def)

lemma buildRequestParams_attachment:
  assumes "FormattingMode configs = formattingModeAttachment"
  shows "snd (buildRequestParams configs) =
     Return \<lparr> RequestParams.Text = [],
              Attachments =
                [\<lparr> Fallback = override_rule (IsBuildFailed configs) (MessageOnError configs) (Message configs),
                    AttachmentItemModel.Text = override_rule (IsBuildFailed configs) (MessageOnError configs) (Message configs),
                    AttachmentItemModel.Color = override_rule (IsBuildFailed configs) (ColorOnError configs) (Color configs) \<rparr>],
              RequestParams.Channel = optional (Channel configs),
              Username = optional (override_rule (IsBuildFailed configs) (FromUsernameOnError configs) (FromUsername configs)),
              EmojiIcon =
                (if override_rule (IsBuildFailed configs) (IconURLOnError configs) (IconURL configs) = []
                 then optional (override_rule (IsBuildFailed configs) (EmojiOnError configs) (Emoji configs))
                 else None),
              RequestParams.IconURL = optional (override_rule (IsBuildFailed configs) (IconURLOnError configs) (IconURL configs)) \<rparr>"
  using assms
  by (simp add: snd_buildRequestParams set_formatting_def fst_select_msgColor fst_select_msgText
      set_Channel_eq fst_set_Username fst_set_EmojiIcon fst_set_IconURL ignore_emoji_def
      RequestParams_zero_def optional_def)

lemma buildRequestParams_text:
  assumes "FormattingMode configs = formattingModeText"
  shows "snd (buildRequestParams configs) =
     Return \<lparr> RequestParams.Text = override_rule (IsBuildFailed configs) (MessageOnError configs) (Message configs),
              Attachments = [],
              RequestParams.Channel = optional (Channel configs),
              Username = optional (override_rule (IsBuildFailed configs) (FromUsernameOnError configs) (FromUsername configs)),
              EmojiIcon =
                (if override_rule (IsBuildFailed configs) (IconURLOnError configs) (IconURL configs) = []
                 then optional (override_rule (IsBuildFailed configs) (EmojiOnError configs) (Emoji configs))
                 else None),
              RequestParams.IconURL = optional (override_rule (IsBuildFailed configs) (IconURLOnError configs) (IconURL configs)) \<rparr>"
  using assms
  by (simp add: snd_buildRequestParams set_formatting_def fst_select_msgColor fst_select_msgText
      set_Channel_eq fst_set_Username fst_set_EmojiIcon fst_set_IconURL ignore_emoji_def
      RequestParams_zero_def optional_def formattingModes_distinct)

lemma buildRequestParams_other:
  assumes "FormattingMode configs \<noteq> formattingModeAttachment"
    and "FormattingMode configs \<noteq> formattingModeText"
  shows "snd (buildRequestParams configs) = Exit 1"
  using assms by (simp add: snd_buildRequestParams set_formatting_def)

lemma snd_CreatePayloadParam_with:
  "snd (CreatePayloadParam_with Marshal configs) =
     (case snd (buildRequestParams configs) of
        Exit code \<Rightarrow> Exit code
      | Return reqParams \<Rightarrow>
          (case Marshal reqParams of
             Inl err \<Rightarrow> Return ([], None)
           | Inr reqParamsJSONBytes \<Rightarrow> Return (reqParamsJSONBytes, None)))"
  by (simp add: CreatePayloadParam_with_def split: prod.split outcome.split)


section \<open>The serialised text in closed form\<close>

lemma appendString_keys:
  \<open>appendString ''text'' = ''"text"''\<close>
  \<open>appendString ''attachments'' = ''"attachments"''\<close>
  \<open>appendString ''channel'' = ''"channel"''\<close>
  \<open>appendString ''username'' = ''"username"''\<close>
  \<open>appendString ''icon_emoji'' = ''"icon_emoji"''\<close>
  \<open>appendString ''icon_url'' = ''"icon_url"''\<close>
  \<open>appendString ''fallback'' = ''"fallback"''\<close>
  \<open>appendString ''color'' = ''"color"''\<close>
  by (simp_all add: appendString_def htmlSafeSet_def)

lemma encode_marshal_ptr:
  "encode (marshal_ptr p) = (case p of None \<Rightarrow> ''null'' | Some v \<Rightarrow> appendString v)"
  by (simp add: marshal_ptr_def split: option.split)

lemma encode_RequestParams_text:
  assumes "Attachments r = []"
  shows \<open>encode (marshal_RequestParams r) =
     ''{"text":'' @ appendString (RequestParams.Text r)
     @ '',"channel":'' @ encode (marshal_ptr (RequestParams.Channel r))
     @ '',"username":'' @ encode (marshal_ptr (Username r))
     @ '',"icon_emoji":'' @ encode (marshal_ptr (EmojiIcon r))
     @ '',"icon_url":'' @ encode (marshal_ptr (RequestParams.IconURL r)) @ ''}''\<close>
  using assms
  by (simp add: marshal_RequestParams_def RequestParams_fields_def appendString_keys)

lemma encode_RequestParams_attachment:
  assumes "Attachments r = [a]"
  shows \<open>encode (marshal_RequestParams r) =
     ''{"text":'' @ appendString (RequestParams.Text r)
     @ '',"attachments":[{"fallback":'' @ appendString (Fallback a)
     @ '',"text":'' @ appendString (AttachmentItemModel.Text a)
     @ (if AttachmentItemModel.Color a = [] then []
        else '',"color":'' @ appendString (AttachmentItemModel.Color a))
     @ ''}]''
     @ '',"channel":'' @ encode (marshal_ptr (RequestParams.Channel r))
     @ '',"username":'' @ encode (marshal_ptr (Username r))
     @ '',"icon_emoji":'' @ encode (marshal_ptr (EmojiIcon r))
     @ '',"icon_url":'' @ encode (marshal_ptr (RequestParams.IconURL r)) @ ''}''\<close>
  using assms
  by (simp add: marshal_RequestParams_def RequestParams_fields_def appendString_keys
      marshal_AttachmentItemModel_def)

lemma runeLen_at_least_2: "runeLen s = Some n \<Longrightarrow> 2 \<le> n"
  by (auto simp add: runeLen_def split: list.splits option.splits if_splits)

lemma escapeByte_not_Nil: "escapeByte b \<noteq> []"
  by (simp add: escapeByte_def)

lemma escapeString_eq_Nil: "(escapeString s = []) = (s = [])"
proof (cases s)
  case Nil
  then show ?thesis by simp
next
  case (Cons b bs)
  then show ?thesis
    by (auto simp add: escapeByte_not_Nil split: option.splits dest: runeLen_at_least_2)
qed

lemma appendString_empty: \<open>(appendString v = ''""'') = (v = [])\<close>
  by (simp add: appendString_def escapeString_eq_Nil)

lemma encode_RequestParams_ends:
  \<open>\<exists>pre. encode (marshal_RequestParams r) =
     pre @ '',"icon_emoji":'' @ encode (marshal_ptr (EmojiIcon r))
     @ '',"icon_url":'' @ encode (marshal_ptr (RequestParams.IconURL r)) @ ''}''\<close>
proof (cases "Attachments r = []")
  case True
  show ?thesis
    by (rule exI [of _ \<open>''{"text":'' @ appendString (RequestParams.Text r)
          @ '',"channel":'' @ encode (marshal_ptr (RequestParams.Channel r))
          @ '',"username":'' @ encode (marshal_ptr (Username r))\<close>])
       (simp add: encode_RequestParams_text [OF True])
next
  case False
  show ?thesis
    by (rule exI [of _ \<open>''{"text":'' @ appendString (RequestParams.Text r)
          @ '',"attachments":''
          @ encode (JArray (map marshal_AttachmentItemModel (Attachments r)))
          @ '',"channel":'' @ encode (marshal_ptr (RequestParams.Channel r))
          @ '',"username":'' @ encode (marshal_ptr (Username r))\<close>])
       (simp add: marshal_RequestParams_def RequestParams_fields_def appendString_keys False)
qed

lemma encode_RequestParams_icon_only:
  assumes "EmojiIcon r = None" and "RequestParams.IconURL r = Some u"
  shows \<open>\<exists>pre. encode (marshal_RequestParams r) =
     pre @ '',"icon_emoji":null,"icon_url":'' @ appendString u @ ''}''\<close>
  using encode_RequestParams_ends [of r] assms
  by (simp add: encode_marshal_ptr)


section \<open>Validation (C6)\<close>

text \<open>
  C6. \<open>validate\<close> stops at the first failing check, in the order: webhook URL empty,
  message empty, colour empty, formatting mode empty, formatting mode neither \<open>text\<close>
  nor \<open>attachment\<close>. The five errors differ from one another, whatever the rejected
  mode is, and the error for an unknown mode ends with that mode. The result is nil
  exactly when all five checks pass.
\<close>

theorem validate_first_failing_check:
  "validate configs =
     (if WebhookURL configs = [] then Some (Error ''No Webhook URL parameter specified!'')
      else if Message configs = [] then Some (Error ''No Message parameter specified!'')
      else if Color configs = [] then Some (Error ''No Color parameter specified!'')
      else if FormattingMode configs = [] then
        Some (Error ''No FormattingMode parameter specified!'')
      else if FormattingMode configs \<noteq> ''text'' \<and> FormattingMode configs \<noteq> ''attachment'' then
        Some (Error (''Invalid FormattingMode: '' @ FormattingMode configs))
      else None)
   \<and> distinct [Error ''No Webhook URL parameter specified!'',
               Error ''No Message parameter specified!'',
               Error ''No Color parameter specified!'',
               Error ''No FormattingMode parameter specified!'',
               Error (''Invalid FormattingMode: '' @ mode)]
   \<and> (validate configs = None) =
       (WebhookURL configs \<noteq> [] \<and> Message configs \<noteq> [] \<and> Color configs \<noteq> []
        \<and> FormattingMode configs \<noteq> []
        \<and> (FormattingMode configs = ''text'' \<or> FormattingMode configs = ''attachment''))"
  by (auto simp add: validate_def formattingModeText_def formattingModeAttachment_def)


section \<open>The build-failed flag (C7)\<close>

text \<open>
  C7. The build-failed flag read from the environment is true unless the variable
  \<open>STEPLIB_BUILD_STATUS\<close> is set to exactly \<open>0\<close>; a variable that is not set, or set
  to the empty string, gives true.
\<close>

theorem build_failed_unless_status_zero:
  "IsBuildFailed (createConfigsModelFromEnvs e) = (e ''STEPLIB_BUILD_STATUS'' \<noteq> Some ''0'')
   \<and> (e ''STEPLIB_BUILD_STATUS'' = None \<longrightarrow> IsBuildFailed (createConfigsModelFromEnvs e))
   \<and> (e ''STEPLIB_BUILD_STATUS'' = Some [] \<longrightarrow> IsBuildFailed (createConfigsModelFromEnvs e))"
  by (simp add: createConfigsModelFromEnvs_def Getenv_def split: option.split)

theorem build_failed_unless_status_zero_witness:
  "(Map.empty :: env) ''STEPLIB_BUILD_STATUS'' = None
   \<and> IsBuildFailed (createConfigsModelFromEnvs Map.empty)
   \<and> env_with_status [] ''STEPLIB_BUILD_STATUS'' = Some []
   \<and> IsBuildFailed (createConfigsModelFromEnvs (env_with_status []))
   \<and> IsBuildFailed (createConfigsModelFromEnvs (env_with_status ''1''))
   \<and> IsBuildFailed (createConfigsModelFromEnvs (env_with_status ''00''))
   \<and> \<not> IsBuildFailed (createConfigsModelFromEnvs (env_with_status ''0''))"
  using build_failed_unless_status_zero [of Map.empty]
    build_failed_unless_status_zero [of "env_with_status []"]
    build_failed_unless_status_zero [of "env_with_status ''1''"]
    build_failed_unless_status_zero [of "env_with_status ''00''"]
    build_failed_unless_status_zero [of "env_with_status ''0''"]
  by (simp add: env_with_status_def)


section \<open>A failing serialisation (C8)\<close>

text \<open>
  C8. When the serialiser fails on the request parameters, \<open>CreatePayloadParam\<close> returns
  the empty string and a nil error; whatever the serialiser does, and so also with the
  library's own, the error returned by \<open>CreatePayloadParam\<close> is nil.
\<close>

theorem marshal_error_swallowed:
  "(snd (buildRequestParams configs) = Return reqParams \<and> Marshal reqParams = Inl err
      \<longrightarrow> snd (CreatePayloadParam_with Marshal configs) = Return ([], None))
   \<and> (snd (CreatePayloadParam_with Marshal configs) = Return (payload, e) \<longrightarrow> e = None)
   \<and> (snd (CreatePayloadParam configs) = Return (payload, e) \<longrightarrow> e = None)"
  by (auto simp add: snd_CreatePayloadParam_with CreatePayloadParam_def
      split: outcome.splits sum.splits)

theorem marshal_error_swallowed_witness:
  "snd (buildRequestParams example_text_ok)
     = Return \<lparr> RequestParams.Text = ''Build OK'', Attachments = [],
                 RequestParams.Channel = None, Username = None, EmojiIcon = None,
                 RequestParams.IconURL = None \<rparr>
   \<and> failing_Marshal \<lparr> RequestParams.Text = ''Build OK'', Attachments = [],
                        RequestParams.Channel = None, Username = None, EmojiIcon = None,
                        RequestParams.IconURL = None \<rparr>
       = Inl (Error ''json: unsupported value'')
   \<and> snd (CreatePayloadParam_with failing_Marshal example_text_ok) = Return ([], None)"
  using marshal_error_swallowed [of example_text_ok
      "\<lparr> RequestParams.Text = ''Build OK'', Attachments = [], RequestParams.Channel = None,
         Username = None, EmojiIcon = None, RequestParams.IconURL = None \<rparr>"
      failing_Marshal "Error ''json: unsupported value''"]
    buildRequestParams_text [of example_text_ok]
  by (simp add: example_text_ok_def failing_Marshal_def formattingModeText_def
      override_rule_def optional_def)


section \<open>The abort for an unknown formatting mode (C10)\<close>

text \<open>
  C10. After \<open>validate\<close> has returned nil, the formatting mode is \<open>text\<close> or
  \<open>attachment\<close> and not both, so the block of lines 151 to 160 takes one of its first
  two branches; the request parameters are built and \<open>CreatePayloadParam\<close> does not end
  the process.
\<close>

theorem validated_mode_never_aborts:
  assumes "validate configs = None"
  shows "(FormattingMode configs = formattingModeText
            \<or> FormattingMode configs = formattingModeAttachment)
         \<and> (FormattingMode configs = formattingModeText)
             \<noteq> (FormattingMode configs = formattingModeAttachment)
         \<and> (\<exists>reqParams'. set_formatting configs msgColor msgText reqParams = Inr reqParams')
         \<and> (\<exists>reqParams'. snd (buildRequestParams configs) = Return reqParams')
         \<and> snd (CreatePayloadParam_with Marshal configs) \<noteq> Exit code"
proof -
  from assms have mode: "FormattingMode configs = formattingModeText
      \<or> FormattingMode configs = formattingModeAttachment"
    by (simp add: validate_def split: if_splits)
  then have "\<exists>reqParams'. snd (buildRequestParams configs) = Return reqParams'"
    using buildRequestParams_attachment [of configs] buildRequestParams_text [of configs]
    by auto
  then have "snd (CreatePayloadParam_with Marshal configs) \<noteq> Exit code"
    by (auto simp add: snd_CreatePayloadParam_with split: sum.splits)
  with mode \<open>\<exists>reqParams'. snd (buildRequestParams configs) = Return reqParams'\<close>
  show ?thesis
    using formattingModes_distinct by (auto simp add: set_formatting_def)
qed

theorem validated_mode_never_aborts_witness:
  "validate example_attachment_failed = None
   \<and> FormattingMode example_attachment_failed = formattingModeAttachment
   \<and> FormattingMode example_attachment_failed \<noteq> formattingModeText
   \<and> snd (CreatePayloadParam_with failing_Marshal example_attachment_failed) \<noteq> Exit 1"
proof -
  have valid: "validate example_attachment_failed = None"
    by (simp add: validate_def example_attachment_failed_def formattingModeText_def
        formattingModeAttachment_def)
  show ?thesis
    using valid validated_mode_never_aborts [OF valid, of _ _ _ failing_Marshal 1]
    by (simp add: example_attachment_failed_def formattingModeAttachment_def)
qed



section \<open>A build that did not fail (C9)\<close>

text \<open>
  C9. When the build-failed flag is false, the colour and the text are the normal ones,
  and the request parameters are built from the normal variants of the message, the
  colour, the user name, the emoji and the icon URL only: no on-error variant occurs in
  them, whatever its value.
\<close>

theorem build_ok_uses_normal_variants:
  assumes "\<not> IsBuildFailed configs"
  shows "fst (select_msgColor configs) = Color configs
         \<and> fst (select_msgText configs) = Message configs
         \<and> snd (buildRequestParams configs) =
             (if FormattingMode configs = formattingModeAttachment then
                Return \<lparr> RequestParams.Text = [],
                         Attachments =
                           [\<lparr> Fallback = Message configs,
                               AttachmentItemModel.Text = Message configs,
                               AttachmentItemModel.Color = Color configs \<rparr>],
                         RequestParams.Channel = optional (Channel configs),
                         Username = optional (FromUsername configs),
                         EmojiIcon =
                           (if IconURL configs = [] then optional (Emoji configs) else None),
                         RequestParams.IconURL = optional (IconURL configs) \<rparr>
              else if FormattingMode configs = formattingModeText then
                Return \<lparr> RequestParams.Text = Message configs,
                         Attachments = [],
                         RequestParams.Channel = optional (Channel configs),
                         Username = optional (FromUsername configs),
                         EmojiIcon =
                           (if IconURL configs = [] then optional (Emoji configs) else None),
                         RequestParams.IconURL = optional (IconURL configs) \<rparr>
              else Exit 1)"
proof -
  have ov: "override_rule (IsBuildFailed configs) onError normal = normal" for onError normal
    using assms by (simp add: override_rule_def)
  show ?thesis
    using buildRequestParams_attachment [of configs] buildRequestParams_text [of configs]
      buildRequestParams_other [of configs]
    by (simp add: fst_select_msgColor fst_select_msgText ov)
qed

theorem build_ok_uses_normal_variants_witness:
  "\<not> IsBuildFailed example_all_inputs
   \<and> snd (buildRequestParams example_all_inputs) =
       Return \<lparr> RequestParams.Text = [],
                Attachments =
                  [\<lparr> Fallback = ''Build OK'', AttachmentItemModel.Text = ''Build OK'',
                      AttachmentItemModel.Color = ''good'' \<rparr>],
                RequestParams.Channel = Some ''#builds'',
                Username = Some ''ci'',
                EmojiIcon = None,
                RequestParams.IconURL = Some ''https://example.com/ok.png'' \<rparr>"
proof -
  have ok: "\<not> IsBuildFailed example_all_inputs"
    by (simp add: example_all_inputs_def)
  show ?thesis
    using ok build_ok_uses_normal_variants [OF ok]
    by (simp add: example_all_inputs_def formattingModeAttachment_def optional_def)
qed


section \<open>The override rule (C2)\<close>

text \<open>
  C2. Each of the five attributes with an on-error variant (colour, message text, user
  name, emoji icon, icon URL) is finalized by the override rule: the on-error variant
  if and only if the build failed and that variant is non-empty, the normal variant in
  every other case. For the colour and the text this is the value of the local variable;
  for the three optional fields it is the pointer set by the field's own block, started
  from a nil pointer, and the field of the request parameters that are returned (the
  emoji icon where no icon URL is present, see C3).
\<close>

theorem override_rule_per_attribute:
  "fst (select_msgColor configs)
     = override_rule (IsBuildFailed configs) (ColorOnError configs) (Color configs)
   \<and> fst (select_msgText configs)
       = override_rule (IsBuildFailed configs) (MessageOnError configs) (Message configs)
   \<and> (Username r = None \<longrightarrow>
        Username (fst (set_Username configs r))
          = optional (override_rule (IsBuildFailed configs) (FromUsernameOnError configs)
                        (FromUsername configs)))
   \<and> (EmojiIcon r = None \<longrightarrow>
        EmojiIcon (fst (set_EmojiIcon configs r))
          = optional (override_rule (IsBuildFailed configs) (EmojiOnError configs)
                        (Emoji configs)))
   \<and> (RequestParams.IconURL r = None \<longrightarrow>
        RequestParams.IconURL (fst (set_IconURL configs r))
          = optional (override_rule (IsBuildFailed configs) (IconURLOnError configs)
                        (IconURL configs)))
   \<and> (snd (buildRequestParams configs) = Return reqParams \<longrightarrow>
        Username reqParams
          = optional (override_rule (IsBuildFailed configs) (FromUsernameOnError configs)
                        (FromUsername configs))
        \<and> RequestParams.IconURL reqParams
            = optional (override_rule (IsBuildFailed configs) (IconURLOnError configs)
                          (IconURL configs))
        \<and> (RequestParams.IconURL reqParams = None \<longrightarrow>
             EmojiIcon reqParams
               = optional (override_rule (IsBuildFailed configs) (EmojiOnError configs)
                             (Emoji configs)))
        \<and> (FormattingMode configs = formattingModeText \<longrightarrow>
             RequestParams.Text reqParams
               = override_rule (IsBuildFailed configs) (MessageOnError configs)
                   (Message configs))
        \<and> (FormattingMode configs = formattingModeAttachment \<longrightarrow>
             Attachments reqParams
               = [\<lparr> Fallback = override_rule (IsBuildFailed configs) (MessageOnError configs)
                                  (Message configs),
                     AttachmentItemModel.Text
                       = override_rule (IsBuildFailed configs) (MessageOnError configs)
                           (Message configs),
                     AttachmentItemModel.Color
                       = override_rule (IsBuildFailed configs) (ColorOnError configs)
                           (Color configs) \<rparr>]))"
proof -
  have final: "snd (buildRequestParams configs) = Return reqParams \<longrightarrow>
        Username reqParams
          = optional (override_rule (IsBuildFailed configs) (FromUsernameOnError configs)
                        (FromUsername configs))
        \<and> RequestParams.IconURL reqParams
            = optional (override_rule (IsBuildFailed configs) (IconURLOnError configs)
                          (IconURL configs))
        \<and> (RequestParams.IconURL reqParams = None \<longrightarrow>
             EmojiIcon reqParams
               = optional (override_rule (IsBuildFailed configs) (EmojiOnError configs)
                             (Emoji configs)))
        \<and> (FormattingMode configs = formattingModeText \<longrightarrow>
             RequestParams.Text reqParams
               = override_rule (IsBuildFailed configs) (MessageOnError configs)
                   (Message configs))
        \<and> (FormattingMode configs = formattingModeAttachment \<longrightarrow>
             Attachments reqParams
               = [\<lparr> Fallback = override_rule (IsBuildFailed configs) (MessageOnError configs)
                                  (Message configs),
                     AttachmentItemModel.Text
                       = override_rule (IsBuildFailed configs) (MessageOnError configs)
                           (Message configs),
                     AttachmentItemModel.Color
                       = override_rule (IsBuildFailed configs) (ColorOnError configs)
                           (Color configs) \<rparr>])"
    using buildRequestParams_attachment [of configs] buildRequestParams_text [of configs]
      buildRequestParams_other [of configs] formattingModes_distinct
    by (cases "FormattingMode configs = formattingModeAttachment";
        cases "FormattingMode configs = formattingModeText")
       (auto simp add: optional_eq_None)
  have steps: "(Username r = None \<longrightarrow>
        Username (fst (set_Username configs r))
          = optional (override_rule (IsBuildFailed configs) (FromUsernameOnError configs)
                        (FromUsername configs)))
   \<and> (EmojiIcon r = None \<longrightarrow>
        EmojiIcon (fst (set_EmojiIcon configs r))
          = optional (override_rule (IsBuildFailed configs) (EmojiOnError configs)
                        (Emoji configs)))
   \<and> (RequestParams.IconURL r = None \<longrightarrow>
        RequestParams.IconURL (fst (set_IconURL configs r))
          = optional (override_rule (IsBuildFailed configs) (IconURLOnError configs)
                        (IconURL configs)))"
    by (simp add: fst_set_Username fst_set_EmojiIcon fst_set_IconURL optional_def)
  from final steps show ?thesis
    unfolding fst_select_msgColor fst_select_msgText by blast
qed


theorem override_rule_per_attribute_witness:
  "Username RequestParams_zero = None
   \<and> EmojiIcon RequestParams_zero = None
   \<and> RequestParams.IconURL RequestParams_zero = None
   \<and> fst (select_msgColor (example_all_inputs\<lparr>IsBuildFailed := True\<rparr>)) = ''good''
   \<and> fst (select_msgText (example_all_inputs\<lparr>IsBuildFailed := True\<rparr>)) = ''Build FAILED''
   \<and> Username (fst (set_Username (example_all_inputs\<lparr>IsBuildFailed := True\<rparr>)
                        RequestParams_zero)) = Some ''ci-alert''
   \<and> EmojiIcon (fst (set_EmojiIcon (example_all_inputs\<lparr>IsBuildFailed := True\<rparr>)
                         RequestParams_zero)) = Some '':boom:''
   \<and> RequestParams.IconURL (fst (set_IconURL (example_all_inputs\<lparr>IsBuildFailed := True\<rparr>)
                                     RequestParams_zero))
       = Some ''https://example.com/ok.png''
   \<and> snd (buildRequestParams example_attachment_failed)
       = Return \<lparr> RequestParams.Text = [],
                  Attachments =
                    [\<lparr> Fallback = ''Build FAILED'', AttachmentItemModel.Text = ''Build FAILED'',
                        AttachmentItemModel.Color = ''danger'' \<rparr>],
                  RequestParams.Channel = None, Username = None, EmojiIcon = None,
                  RequestParams.IconURL = None \<rparr>
   \<and> snd (buildRequestParams (example_text_ok\<lparr>IsBuildFailed := True\<rparr>))
       = Return \<lparr> RequestParams.Text = ''Build OK'', Attachments = [],
                  RequestParams.Channel = None, Username = None, EmojiIcon = None,
                  RequestParams.IconURL = None \<rparr>"
  using override_rule_per_attribute [of "example_all_inputs\<lparr>IsBuildFailed := True\<rparr>"
      RequestParams_zero]
    override_rule_per_attribute [of example_attachment_failed RequestParams_zero
      "\<lparr> RequestParams.Text = [],
         Attachments =
           [\<lparr> Fallback = ''Build FAILED'', AttachmentItemModel.Text = ''Build FAILED'',
               AttachmentItemModel.Color = ''danger'' \<rparr>],
         RequestParams.Channel = None, Username = None, EmojiIcon = None,
         RequestParams.IconURL = None \<rparr>"]
    override_rule_per_attribute [of "example_text_ok\<lparr>IsBuildFailed := True\<rparr>"
      RequestParams_zero
      "\<lparr> RequestParams.Text = ''Build OK'', Attachments = [],
         RequestParams.Channel = None, Username = None, EmojiIcon = None,
         RequestParams.IconURL = None \<rparr>"]
    buildRequestParams_attachment [of example_attachment_failed]
    buildRequestParams_text [of "example_text_ok\<lparr>IsBuildFailed := True\<rparr>"]
  by (simp add: example_all_inputs_def example_attachment_failed_def example_text_ok_def
      RequestParams_zero_def override_rule_def optional_def formattingModeText_def
      formattingModeAttachment_def)


section \<open>The icon URL comes before the emoji (C3)\<close>

subsection \<open>The claim as stated fails\<close>

text \<open>
  C3 as stated does not hold on the payload that is returned. With an icon URL and an
  emoji both resolved, lines 203 to 205 set the emoji pointer to nil, but the field has
  no \<open>omitempty\<close> tag: the returned JSON still contains the key \<open>icon_emoji\<close>, with
  the value \<open>null\<close>.
\<close>

theorem emoji_key_still_written_counterexample:
  \<open>override_rule (IsBuildFailed example_all_inputs) (IconURLOnError example_all_inputs)
     (IconURL example_all_inputs) = ''https://example.com/ok.png''
   \<and> override_rule (IsBuildFailed example_all_inputs) (EmojiOnError example_all_inputs)
       (Emoji example_all_inputs) = '':tada:''
   \<and> snd (buildRequestParams example_all_inputs)
       = Return \<lparr> RequestParams.Text = [],
                  Attachments =
                    [\<lparr> Fallback = ''Build OK'', AttachmentItemModel.Text = ''Build OK'',
                        AttachmentItemModel.Color = ''good'' \<rparr>],
                  RequestParams.Channel = Some ''#builds'', Username = Some ''ci'',
                  EmojiIcon = None,
                  RequestParams.IconURL = Some ''https://example.com/ok.png'' \<rparr>
   \<and> map_of (RequestParams_fields
               \<lparr> RequestParams.Text = [],
                  Attachments =
                    [\<lparr> Fallback = ''Build OK'', AttachmentItemModel.Text = ''Build OK'',
                        AttachmentItemModel.Color = ''good'' \<rparr>],
                  RequestParams.Channel = Some ''#builds'', Username = Some ''ci'',
                  EmojiIcon = None,
                  RequestParams.IconURL = Some ''https://example.com/ok.png'' \<rparr>)
        ''icon_emoji'' = Some JNull
   \<and> snd (CreatePayloadParam example_all_inputs)
       = Return (''{"text":"","attachments":[{"fallback":"Build OK","text":"Build OK","color":"good"}],"channel":"#builds","username":"ci","icon_emoji":null,"icon_url":"https://example.com/ok.png"}'',
                 None)\<close>
proof -
  have icon: "override_rule (IsBuildFailed example_all_inputs)
      (IconURLOnError example_all_inputs) (IconURL example_all_inputs)
      = ''https://example.com/ok.png''"
    by (simp add: example_all_inputs_def override_rule_def)
  have emoji: "override_rule (IsBuildFailed example_all_inputs)
      (EmojiOnError example_all_inputs) (Emoji example_all_inputs) = '':tada:''"
    by (simp add: example_all_inputs_def override_rule_def)
  have mode: "FormattingMode example_all_inputs = formattingModeAttachment"
    by (simp add: example_all_inputs_def formattingModeAttachment_def)
  have built: "snd (buildRequestParams example_all_inputs)
       = Return \<lparr> RequestParams.Text = [],
                  Attachments =
                    [\<lparr> Fallback = ''Build OK'', AttachmentItemModel.Text = ''Build OK'',
                        AttachmentItemModel.Color = ''good'' \<rparr>],
                  RequestParams.Channel = Some ''#builds'', Username = Some ''ci'',
                  EmojiIcon = None,
                  RequestParams.IconURL = Some ''https://example.com/ok.png'' \<rparr>"
    using buildRequestParams_attachment [OF mode]
    by (simp add: example_all_inputs_def override_rule_def optional_def)
  have key: "map_of (RequestParams_fields
               \<lparr> RequestParams.Text = [],
                  Attachments =
                    [\<lparr> Fallback = ''Build OK'', AttachmentItemModel.Text = ''Build OK'',
                        AttachmentItemModel.Color = ''good'' \<rparr>],
                  RequestParams.Channel = Some ''#builds'', Username = Some ''ci'',
                  EmojiIcon = None,
                  RequestParams.IconURL = Some ''https://example.com/ok.png'' \<rparr>)
        ''icon_emoji'' = Some JNull"
    by (simp add: RequestParams_fields_def marshal_ptr_def)
  have q: \<open>appendString [] = ''""''\<close>
    \<open>appendString ''Build OK'' = ''"Build OK"''\<close>
    \<open>appendString ''good'' = ''"good"''\<close>
    \<open>appendString ''#builds'' = ''"#builds"''\<close>
    \<open>appendString ''ci'' = ''"ci"''\<close>
    \<open>appendString ''https://example.com/ok.png'' = ''"https://example.com/ok.png"''\<close>
    by (simp_all add: appendString_def htmlSafeSet_def)
  have returned: \<open>snd (CreatePayloadParam example_all_inputs)
       = Return (''{"text":"","attachments":[{"fallback":"Build OK","text":"Build OK","color":"good"}],"channel":"#builds","username":"ci","icon_emoji":null,"icon_url":"https://example.com/ok.png"}'',
                 None)\<close>
    by (simp add: CreatePayloadParam_def snd_CreatePayloadParam_with built json_Marshal_def
        encode_RequestParams_attachment encode_marshal_ptr q)
  from icon emoji built key returned show ?thesis
    by (intro conjI)
qed

subsection \<open>The claim as amended\<close>

text \<open>
  C3, amended. When the finalized icon URL is non-empty, the payload built by
  \<open>CreatePayloadParam\<close> carries that icon URL and no emoji value, whatever the emoji
  inputs are: in the request parameters the icon URL is set and the emoji pointer is
  nil; in the serialised object the key \<open>icon_url\<close> holds the icon URL as a string and
  the key \<open>icon_emoji\<close> is still present, with the value \<open>null\<close>; the returned JSON
  text ends with \<open>,"icon_emoji":null,"icon_url":\<close>, the quoted icon URL and \<open>}\<close>.
\<close>

theorem icon_url_nulls_emoji:
  assumes "override_rule (IsBuildFailed configs) (IconURLOnError configs) (IconURL configs) \<noteq> []"
    and "snd (buildRequestParams configs) = Return reqParams"
  shows \<open>RequestParams.IconURL reqParams
           = Some (override_rule (IsBuildFailed configs) (IconURLOnError configs)
                     (IconURL configs))
         \<and> EmojiIcon reqParams = None
         \<and> map_of (RequestParams_fields reqParams) ''icon_url''
             = Some (JString (override_rule (IsBuildFailed configs) (IconURLOnError configs)
                                (IconURL configs)))
         \<and> map_of (RequestParams_fields reqParams) ''icon_emoji'' = Some JNull
         \<and> (\<exists>pre. snd (CreatePayloadParam configs)
               = Return (pre @ '',"icon_emoji":null,"icon_url":''
                         @ appendString (override_rule (IsBuildFailed configs)
                                           (IconURLOnError configs) (IconURL configs))
                         @ ''}'', None))\<close>
proof -
  have fields: "RequestParams.IconURL reqParams
           = Some (override_rule (IsBuildFailed configs) (IconURLOnError configs)
                     (IconURL configs))
         \<and> EmojiIcon reqParams = None"
    using assms buildRequestParams_attachment [of configs] buildRequestParams_text [of configs]
      buildRequestParams_other [of configs]
    by (cases "FormattingMode configs = formattingModeAttachment";
        cases "FormattingMode configs = formattingModeText")
       (auto simp add: optional_def)
  then have icon: "RequestParams.IconURL reqParams
           = Some (override_rule (IsBuildFailed configs) (IconURLOnError configs)
                     (IconURL configs))"
    and emoji: "EmojiIcon reqParams = None"
    by simp_all
  have url_key: "map_of (RequestParams_fields reqParams) ''icon_url''
             = Some (JString (override_rule (IsBuildFailed configs) (IconURLOnError configs)
                                (IconURL configs)))"
    using icon by (simp add: RequestParams_fields_def marshal_ptr_def)
  have emoji_key: "map_of (RequestParams_fields reqParams) ''icon_emoji'' = Some JNull"
    using emoji by (simp add: RequestParams_fields_def marshal_ptr_def)
  have returned: "snd (CreatePayloadParam configs)
      = Return (encode (marshal_RequestParams reqParams), None)"
    using assms(2)
    by (simp add: CreatePayloadParam_def snd_CreatePayloadParam_with json_Marshal_def)
  have string: \<open>\<exists>pre. snd (CreatePayloadParam configs)
               = Return (pre @ '',"icon_emoji":null,"icon_url":''
                         @ appendString (override_rule (IsBuildFailed configs)
                                           (IconURLOnError configs) (IconURL configs))
                         @ ''}'', None)\<close>
    using encode_RequestParams_icon_only [OF emoji icon]
    by (simp add: returned)
  from icon emoji url_key emoji_key string show ?thesis
    by (intro conjI)
qed

theorem icon_url_nulls_emoji_witness:
  \<open>override_rule (IsBuildFailed example_all_inputs) (IconURLOnError example_all_inputs)
     (IconURL example_all_inputs) = ''https://example.com/ok.png''
   \<and> override_rule (IsBuildFailed example_all_inputs) (EmojiOnError example_all_inputs)
       (Emoji example_all_inputs) = '':tada:''
   \<and> (\<exists>reqParams. snd (buildRequestParams example_all_inputs) = Return reqParams
         \<and> RequestParams.IconURL reqParams = Some ''https://example.com/ok.png''
         \<and> EmojiIcon reqParams = None
         \<and> map_of (RequestParams_fields reqParams) ''icon_emoji'' = Some JNull)
   \<and> (\<exists>pre. snd (CreatePayloadParam example_all_inputs)
         = Return (pre @ '',"icon_emoji":null,"icon_url":"https://example.com/ok.png"}'',
                   None))\<close>
proof -
  have icon: "override_rule (IsBuildFailed example_all_inputs)
      (IconURLOnError example_all_inputs) (IconURL example_all_inputs)
      = ''https://example.com/ok.png''"
    by (simp add: example_all_inputs_def override_rule_def)
  have emoji: "override_rule (IsBuildFailed example_all_inputs)
      (EmojiOnError example_all_inputs) (Emoji example_all_inputs) = '':tada:''"
    by (simp add: example_all_inputs_def override_rule_def)
  have mode: "FormattingMode example_all_inputs = formattingModeAttachment"
    by (simp add: example_all_inputs_def formattingModeAttachment_def)
  have present: "override_rule (IsBuildFailed example_all_inputs)
      (IconURLOnError example_all_inputs) (IconURL example_all_inputs) \<noteq> []"
    by (simp add: icon)
  have q: \<open>appendString ''https://example.com/ok.png'' = ''"https://example.com/ok.png"''\<close>
    by (simp add: appendString_def htmlSafeSet_def)
  note result = icon_url_nulls_emoji [OF present buildRequestParams_attachment [OF mode]]
  from result icon q have string: \<open>\<exists>pre. snd (CreatePayloadParam example_all_inputs)
         = Return (pre @ '',"icon_emoji":null,"icon_url":"https://example.com/ok.png"}'',
                   None)\<close>
    by simp
  from result icon have struct: "\<exists>reqParams.
      snd (buildRequestParams example_all_inputs) = Return reqParams
      \<and> RequestParams.IconURL reqParams = Some ''https://example.com/ok.png''
      \<and> EmojiIcon reqParams = None
      \<and> map_of (RequestParams_fields reqParams) ''icon_emoji'' = Some JNull"
    using buildRequestParams_attachment [OF mode] by (simp del: RequestParams.simps)
  from icon emoji struct string show ?thesis
    by (intro conjI)
qed


section \<open>Attachment mode (C4)\<close>

text \<open>
  C4. In formatting mode \<open>attachment\<close> the request parameters hold exactly one
  attachment, whose fallback and text are the finalized message text and whose colour is
  the finalized colour, and the top-level text is empty. The mode alone is assumed; a
  configuration that passed validation is a special case.
\<close>

theorem attachment_mode_payload:
  assumes "FormattingMode configs = formattingModeAttachment"
  shows "\<exists>reqParams. snd (buildRequestParams configs) = Return reqParams
           \<and> Attachments reqParams
               = [\<lparr> Fallback = fst (select_msgText configs),
                     AttachmentItemModel.Text = fst (select_msgText configs),
                     AttachmentItemModel.Color = fst (select_msgColor configs) \<rparr>]
           \<and> length (Attachments reqParams) = 1
           \<and> RequestParams.Text reqParams = []"
  using buildRequestParams_attachment [OF assms]
  by (simp add: fst_select_msgText fst_select_msgColor)

theorem attachment_mode_payload_witness:
  "FormattingMode example_attachment_failed = formattingModeAttachment
   \<and> validate example_attachment_failed = None
   \<and> fst (select_msgText example_attachment_failed) = ''Build FAILED''
   \<and> fst (select_msgColor example_attachment_failed) = ''danger''
   \<and> (\<exists>reqParams. snd (buildRequestParams example_attachment_failed) = Return reqParams
         \<and> Attachments reqParams
             = [\<lparr> Fallback = ''Build FAILED'', AttachmentItemModel.Text = ''Build FAILED'',
                   AttachmentItemModel.Color = ''danger'' \<rparr>]
         \<and> RequestParams.Text reqParams = [])"
proof -
  have mode: "FormattingMode example_attachment_failed = formattingModeAttachment"
    by (simp add: example_attachment_failed_def formattingModeAttachment_def)
  have valid: "validate example_attachment_failed = None"
    by (simp add: validate_def example_attachment_failed_def formattingModeText_def
        formattingModeAttachment_def)
  have msg: "fst (select_msgText example_attachment_failed) = ''Build FAILED''"
    by (simp add: select_msgText_def example_attachment_failed_def)
  have color: "fst (select_msgColor example_attachment_failed) = ''danger''"
    by (simp add: select_msgColor_def example_attachment_failed_def)
  from attachment_mode_payload [OF mode] mode valid msg color
  show ?thesis by auto
qed


section \<open>Text mode (C5)\<close>

text \<open>
  C5. In formatting mode \<open>text\<close> the top-level text of the request parameters is the
  finalized message text and there are no attachments; the object that is serialised and
  returned has no \<open>attachments\<close> key. The mode alone is assumed; a configuration that
  passed validation is a special case.
\<close>

theorem text_mode_payload:
  assumes "FormattingMode configs = formattingModeText"
  shows "\<exists>reqParams. snd (buildRequestParams configs) = Return reqParams
           \<and> RequestParams.Text reqParams = fst (select_msgText configs)
           \<and> Attachments reqParams = []
           \<and> ''attachments'' \<notin> fst ` set (RequestParams_fields reqParams)
           \<and> snd (CreatePayloadParam configs)
               = Return (encode (JObject (RequestParams_fields reqParams)), None)"
  using buildRequestParams_text [OF assms]
  by (simp add: fst_select_msgText RequestParams_fields_def snd_CreatePayloadParam_with
      CreatePayloadParam_def json_Marshal_def marshal_RequestParams_def)

theorem text_mode_payload_witness:
  "FormattingMode example_text_ok = formattingModeText
   \<and> validate example_text_ok = None
   \<and> fst (select_msgText example_text_ok) = ''Build OK''
   \<and> (\<exists>reqParams. snd (buildRequestParams example_text_ok) = Return reqParams
         \<and> RequestParams.Text reqParams = ''Build OK''
         \<and> Attachments reqParams = []
         \<and> ''attachments'' \<notin> fst ` set (RequestParams_fields reqParams))"
proof -
  have mode: "FormattingMode example_text_ok = formattingModeText"
    by (simp add: example_text_ok_def formattingModeText_def)
  have valid: "validate example_text_ok = None"
    by (simp add: validate_def example_text_ok_def formattingModeText_def
        formattingModeAttachment_def)
  have msg: "fst (select_msgText example_text_ok) = ''Build OK''"
    by (simp add: select_msgText_def example_text_ok_def)
  from text_mode_payload [OF mode] mode valid msg
  show ?thesis by auto
qed



section \<open>The optional fields in the serialised payload (C1)\<close>

subsection \<open>The claim as stated fails\<close>

text \<open>
  C1 as stated does not hold. The four optional fields are declared without
  \<open>omitempty\<close>, so a nil pointer is not left out: its key is written with the value \<open>null\<close>. For the first example of the
  specification the returned string is not \<open>{"text":"Build OK"}\<close>.
\<close>

theorem omitted_optional_fields_counterexample:
  \<open>snd (CreatePayloadParam example_text_ok)
     = Return (''{"text":"Build OK","channel":null,"username":null,"icon_emoji":null,"icon_url":null}'',
               None)
   \<and> snd (CreatePayloadParam example_text_ok) \<noteq> Return (''{"text":"Build OK"}'', None)\<close>
proof -
  have mode: "FormattingMode example_text_ok = formattingModeText"
    by (simp add: example_text_ok_def formattingModeText_def)
  have built: "snd (buildRequestParams example_text_ok)
     = Return \<lparr> RequestParams.Text = ''Build OK'', Attachments = [],
                 RequestParams.Channel = None, Username = None, EmojiIcon = None,
                 RequestParams.IconURL = None \<rparr>"
    using buildRequestParams_text [OF mode]
    by (simp add: example_text_ok_def override_rule_def optional_def)
  have quoted: \<open>appendString ''Build OK'' = ''"Build OK"''\<close>
    by (simp add: appendString_def htmlSafeSet_def)
  have \<open>snd (CreatePayloadParam example_text_ok)
     = Return (''{"text":"Build OK","channel":null,"username":null,"icon_emoji":null,"icon_url":null}'',
               None)\<close>
    by (simp add: CreatePayloadParam_def snd_CreatePayloadParam_with built json_Marshal_def
        encode_RequestParams_text encode_marshal_ptr quoted)
  then show ?thesis by simp
qed

subsection \<open>The claim as amended\<close>

text \<open>
  C1, amended. For every configuration whose formatting mode is \<open>text\<close> or
  \<open>attachment\<close>, the JSON string returned by \<open>CreatePayloadParam\<close> has the four keys
  \<open>channel\<close>, \<open>username\<close>, \<open>icon_emoji\<close> and \<open>icon_url\<close>, in this order, after the text
  and the attachments. The value of a key is the JSON string of the field's finalized
  value when that value is non-empty (for the emoji icon: and no icon URL is finalized),
  and \<open>null\<close> otherwise; it is never the empty JSON string. For mode \<open>text\<close>, message
  \<open>Build OK\<close>, colour \<open>good\<close>, a build that did not fail and all optional inputs empty,
  the returned string is
  \<open>{"text":"Build OK","channel":null,"username":null,"icon_emoji":null,"icon_url":null}\<close>.
\<close>

theorem optional_fields_null_when_absent:
  \<open>snd (CreatePayloadParam configs) =
     (let failed = IsBuildFailed configs;
          msgText = override_rule failed (MessageOnError configs) (Message configs);
          msgColor = override_rule failed (ColorOnError configs) (Color configs);
          username = override_rule failed (FromUsernameOnError configs) (FromUsername configs);
          emoji = override_rule failed (EmojiOnError configs) (Emoji configs);
          iconURL = override_rule failed (IconURLOnError configs) (IconURL configs);
          optionalFields =
            '',"channel":'' @ encode (marshal_ptr (optional (Channel configs)))
            @ '',"username":'' @ encode (marshal_ptr (optional username))
            @ '',"icon_emoji":''
            @ (if iconURL = [] then encode (marshal_ptr (optional emoji)) else ''null'')
            @ '',"icon_url":'' @ encode (marshal_ptr (optional iconURL)) @ ''}''
      in if FormattingMode configs = formattingModeAttachment then
           Return (''{"text":"","attachments":[{"fallback":'' @ appendString msgText
                   @ '',"text":'' @ appendString msgText
                   @ (if msgColor = [] then [] else '',"color":'' @ appendString msgColor)
                   @ ''}]'' @ optionalFields, None)
         else if FormattingMode configs = formattingModeText then
           Return (''{"text":'' @ appendString msgText @ optionalFields, None)
         else Exit 1)
   \<and> encode (marshal_ptr (optional v)) = (if v = [] then ''null'' else appendString v)
   \<and> (appendString v = ''""'') = (v = [])
   \<and> snd (CreatePayloadParam example_text_ok)
       = Return (''{"text":"Build OK","channel":null,"username":null,"icon_emoji":null,"icon_url":null}'',
                 None)\<close>
proof -
  have empty: \<open>appendString [] = ''""''\<close>
    by (simp add: appendString_def)
  have null: "encode (marshal_ptr None) = ''null''"
    by (simp add: marshal_ptr_def)
  have general: \<open>snd (CreatePayloadParam c) =
     (let failed = IsBuildFailed c;
          msgText = override_rule failed (MessageOnError c) (Message c);
          msgColor = override_rule failed (ColorOnError c) (Color c);
          username = override_rule failed (FromUsernameOnError c) (FromUsername c);
          emoji = override_rule failed (EmojiOnError c) (Emoji c);
          iconURL = override_rule failed (IconURLOnError c) (IconURL c);
          optionalFields =
            '',"channel":'' @ encode (marshal_ptr (optional (Channel c)))
            @ '',"username":'' @ encode (marshal_ptr (optional username))
            @ '',"icon_emoji":''
            @ (if iconURL = [] then encode (marshal_ptr (optional emoji)) else ''null'')
            @ '',"icon_url":'' @ encode (marshal_ptr (optional iconURL)) @ ''}''
      in if FormattingMode c = formattingModeAttachment then
           Return (''{"text":"","attachments":[{"fallback":'' @ appendString msgText
                   @ '',"text":'' @ appendString msgText
                   @ (if msgColor = [] then [] else '',"color":'' @ appendString msgColor)
                   @ ''}]'' @ optionalFields, None)
         else if FormattingMode c = formattingModeText then
           Return (''{"text":'' @ appendString msgText @ optionalFields, None)
         else Exit 1)\<close> for c
  proof (cases "FormattingMode c = formattingModeAttachment")
    case True
    from buildRequestParams_attachment [OF True] show ?thesis
      by (simp add: True CreatePayloadParam_def snd_CreatePayloadParam_with json_Marshal_def
          encode_RequestParams_attachment empty null Let_def)
  next
    case notAttachment: False
    show ?thesis
    proof (cases "FormattingMode c = formattingModeText")
      case True
      from buildRequestParams_text [OF True] show ?thesis
        by (simp add: True notAttachment [simplified True] CreatePayloadParam_def
            snd_CreatePayloadParam_with json_Marshal_def encode_RequestParams_text Let_def
            formattingModes_distinct null)
    next
      case False
      from buildRequestParams_other [OF notAttachment False] show ?thesis
        by (simp add: notAttachment False CreatePayloadParam_def snd_CreatePayloadParam_with
            Let_def)
    qed
  qed
  have ptr: "encode (marshal_ptr (optional v)) = (if v = [] then ''null'' else appendString v)"
    by (simp add: encode_marshal_ptr optional_def)
  have quoted: \<open>appendString ''Build OK'' = ''"Build OK"''\<close>
    by (simp add: appendString_def htmlSafeSet_def)
  have example: \<open>snd (CreatePayloadParam example_text_ok)
       = Return (''{"text":"Build OK","channel":null,"username":null,"icon_emoji":null,"icon_url":null}'',
                 None)\<close>
    unfolding general [of example_text_ok]
    by (simp add: example_text_ok_def formattingModeText_def formattingModeAttachment_def
        override_rule_def optional_def encode_marshal_ptr quoted)
  from general [of configs] ptr appendString_empty [of v] example show ?thesis
    by blast
qed

theorem optional_fields_null_when_absent_witness:
  \<open>snd (CreatePayloadParam example_attachment_failed)
     = Return (''{"text":"","attachments":[{"fallback":"Build FAILED","text":"Build FAILED","color":"danger"}],"channel":null,"username":null,"icon_emoji":null,"icon_url":null}'',
               None)
   \<and> snd (CreatePayloadParam (example_all_inputs\<lparr>FormattingMode := ''text''\<rparr>))
       = Return (''{"text":"Build OK","channel":"#builds","username":"ci","icon_emoji":null,"icon_url":"https://example.com/ok.png"}'',
                 None)\<close>
proof -
  have q: \<open>appendString ''Build FAILED'' = ''"Build FAILED"''\<close>
    \<open>appendString ''danger'' = ''"danger"''\<close>
    \<open>appendString ''Build OK'' = ''"Build OK"''\<close>
    \<open>appendString ''#builds'' = ''"#builds"''\<close>
    \<open>appendString ''ci'' = ''"ci"''\<close>
    \<open>appendString ''https://example.com/ok.png'' = ''"https://example.com/ok.png"''\<close>
    by (simp_all add: appendString_def htmlSafeSet_def)
  from optional_fields_null_when_absent [of example_attachment_failed]
  have a: \<open>snd (CreatePayloadParam example_attachment_failed)
     = Return (''{"text":"","attachments":[{"fallback":"Build FAILED","text":"Build FAILED","color":"danger"}],"channel":null,"username":null,"icon_emoji":null,"icon_url":null}'',
               None)\<close>
    by (simp add: example_attachment_failed_def formattingModeAttachment_def override_rule_def
        optional_def encode_marshal_ptr q)
  from optional_fields_null_when_absent [of "example_all_inputs\<lparr>FormattingMode := ''text''\<rparr>"]
  have b: \<open>snd (CreatePayloadParam (example_all_inputs\<lparr>FormattingMode := ''text''\<rparr>))
       = Return (''{"text":"Build OK","channel":"#builds","username":"ci","icon_emoji":null,"icon_url":"https://example.com/ok.png"}'',
                 None)\<close>
    by (simp add: example_all_inputs_def formattingModeAttachment_def formattingModeText_def
        override_rule_def optional_def encode_marshal_ptr q)
  from a b show ?thesis by simp
qed

end
